theory Spec2Isabelle
  imports Main
begin

section \<open>Values of the host language\<close>

text \<open>
  The service of \<^verbatim>\<open>url-type-factory.service.ts\<close> works on untyped values (\<^verbatim>\<open>any\<close>):
  URL segments, domain objects, the wrapper objects that \<^verbatim>\<open>decode\<close> builds, and
  promises. A value is a primitive, a plain object or a native promise.

  \<^item> An object is its identity (the reference that \<^verbatim>\<open>===\<close> compares), its own data
    properties in insertion order, and the function stored under \<^verbatim>\<open>RSLV_TOKEN\<close> if
    there is one. That closure is the only function-valued property of the values
    considered: domain objects carry data, and only native promises have a callable
    \<^verbatim>\<open>then\<close>.
  \<^item> The two arrow functions that \<^verbatim>\<open>decode\<close> stores are kept as data:
    \<^verbatim>\<open>() => repr\<close> is \<open>ReturnValue repr\<close> and
    \<^verbatim>\<open>() => type.resolve(repr, injector)\<close> is \<open>CallResolve n repr injector\<close>, where
    \<open>n\<close> is the name of the captured type.
  \<^item> A promise is its identity and what becomes of it: it fulfils or rejects at some
    turn of the event loop (turn \<open>0\<close>: already settled), or it stays pending.
  \<^item> Numbers are the integers and \<open>NaN\<close>; strings are ASCII.
\<close>

type_synonym injector = nat

datatype 'v closure = ReturnValue 'v | CallResolve string 'v injector

datatype 'v settlement = Fulfils nat 'v | Rejects nat 'v | Pends

datatype jsval =
    Undefined
  | Null
  | Bool bool
  | NaN
  | Num int
  | Str string
  | Obj nat "(string \<times> jsval) list" "jsval closure option"
  | Promise nat "jsval settlement"

definition REPR_TOKEN :: string where
  "REPR_TOKEN = ''__ngx_ui_router_url_type__repr''"

definition RSLV_TOKEN :: string where
  "RSLV_TOKEN = ''__ngx_ui_router_url_type__rslv''"

text \<open>Truthiness, as \<^verbatim>\<open>!!v\<close>, \<^verbatim>\<open>v && ...\<close> and \<^verbatim>\<open>if (v)\<close> read it.\<close>

fun truthy :: "jsval \<Rightarrow> bool" where
  "truthy Undefined = False"
| "truthy Null = False"
| "truthy (Bool b) = b"
| "truthy NaN = False"
| "truthy (Num n) = (n \<noteq> 0)"
| "truthy (Str s) = (s \<noteq> [])"
| "truthy (Obj a ps r) = True"
| "truthy (Promise a p) = True"

fun typeof :: "jsval \<Rightarrow> string" where
  "typeof Undefined = ''undefined''"
| "typeof Null = ''object''"
| "typeof (Bool b) = ''boolean''"
| "typeof NaN = ''number''"
| "typeof (Num n) = ''number''"
| "typeof (Str s) = ''string''"
| "typeof (Obj a ps r) = ''object''"
| "typeof (Promise a p) = ''object''"

text \<open>Strict equality \<^verbatim>\<open>a === b\<close>: primitives by value (\<open>NaN\<close> equals nothing),
  objects and promises by reference.\<close>

fun strict_eq :: "jsval \<Rightarrow> jsval \<Rightarrow> bool" where
  "strict_eq Undefined Undefined = True"
| "strict_eq Null Null = True"
| "strict_eq (Bool a) (Bool b) = (a = b)"
| "strict_eq (Num a) (Num b) = (a = b)"
| "strict_eq (Str a) (Str b) = (a = b)"
| "strict_eq (Obj a ps r) (Obj b qs q) = (a = b)"
| "strict_eq (Promise a p) (Promise b q) = (a = b)"
| "strict_eq x y = False"

datatype error =
    TypeError
  | Thrown jsval
  | UrlTypeFactoryRegistrationError string
  | UrlTypeFactoryResolveError string

text \<open>Reading a data property, \<^verbatim>\<open>v[k]\<close>. On a value other than \<^verbatim>\<open>undefined\<close> and
  \<^verbatim>\<open>null\<close> the read gives the own property, or \<^verbatim>\<open>undefined\<close> where it is missing.
  The keys read by the service are \<^verbatim>\<open>REPR_TOKEN\<close> and \<^verbatim>\<open>$promise\<close>, which no
  primitive and no promise has.\<close>

fun read_prop :: "jsval \<Rightarrow> string \<Rightarrow> jsval" where
  "read_prop (Obj a ps r) k = (case map_of ps k of None \<Rightarrow> Undefined | Some v \<Rightarrow> v)"
| "read_prop v k = Undefined"

text \<open>On \<^verbatim>\<open>undefined\<close> and \<^verbatim>\<open>null\<close> the read throws a \<^verbatim>\<open>TypeError\<close>.\<close>

definition get_prop :: "jsval \<Rightarrow> string \<Rightarrow> error + jsval" where
  "get_prop v k = (if v = Undefined \<or> v = Null then Inl TypeError else Inr (read_prop v k))"

text \<open>\<^verbatim>\<open>v.hasOwnProperty(k)\<close>, called by the service on non-null objects only.\<close>

fun hasOwnProperty :: "jsval \<Rightarrow> string \<Rightarrow> bool" where
  "hasOwnProperty (Obj a ps r) k =
     (if k = RSLV_TOKEN then r \<noteq> None else map_of ps k \<noteq> None)"
| "hasOwnProperty v k = False"

subsection \<open>Conversion to strings\<close>

fun string_of_nat :: "nat \<Rightarrow> string" where
  "string_of_nat n =
     (if n < 10 then [char_of (48 + n)]
      else string_of_nat (n div 10) @ [char_of (48 + n mod 10)])"

declare string_of_nat.simps [simp del]

definition string_of_int :: "int \<Rightarrow> string" where
  "string_of_int i = (if i < 0 then CHR ''-'' # string_of_nat (nat (- i)) else string_of_nat (nat i))"

text \<open>\<^verbatim>\<open>String(v)\<close> and \<^verbatim>\<open>`${v}`\<close>.\<close>

fun to_string :: "jsval \<Rightarrow> string" where
  "to_string Undefined = ''undefined''"
| "to_string Null = ''null''"
| "to_string (Bool b) = (if b then ''true'' else ''false'')"
| "to_string NaN = ''NaN''"
| "to_string (Num n) = string_of_int n"
| "to_string (Str s) = s"
| "to_string (Obj a ps r) = ''[object Object]''"
| "to_string (Promise a p) = ''[object Promise]''"

definition upper_char :: "char \<Rightarrow> char" where
  "upper_char c =
     (let n = (of_char c :: nat) in if 97 \<le> n \<and> n \<le> 122 then char_of (n - 32) else c)"

definition toUpperCase :: "string \<Rightarrow> string" where
  "toUpperCase s = map upper_char s"

section \<open>Type descriptors and the service\<close>

text \<open>
  The interface \<^verbatim>\<open>UrlType<T>\<close>. \<open>match\<close> is the source text of the regular expression,
  which only the host router reads. \<open>represent\<close> returns a string, as its signature
  says. \<open>resolve\<close> returns any value (a direct value, an object with a \<^verbatim>\<open>$promise\<close>,
  a promise) or throws (\<open>Inl\<close>). \<open>bindable\<close> is optional.
\<close>

record urltype =
  name :: string
  match :: string
  represent :: "jsval \<Rightarrow> string"
  resolve :: "jsval \<Rightarrow> injector \<Rightarrow> error + jsval"
  bindable :: "bool option"

record service =
  registeredTypes :: "urltype list"
  bindableTypes :: "urltype list"







text \<open>\<^verbatim>\<open>getTypeByName(name, bindableOnly)\<close>; \<^verbatim>\<open>null\<close> is \<open>None\<close>.\<close>

fun first_named :: "string \<Rightarrow> urltype list \<Rightarrow> urltype option" where
  "first_named n [] = None"
| "first_named n (t # ts) = (if name t = n then Some t else first_named n ts)"

definition getTypeByName :: "service \<Rightarrow> string \<Rightarrow> bool \<Rightarrow> urltype option" where
  "getTypeByName s n bindableOnly =
     first_named n (if bindableOnly then bindableTypes s else registeredTypes s)"

section \<open>The codec installed for a type\<close>

text \<open>
  The object literal that \<^verbatim>\<open>registerType\<close> hands to the router: \<^verbatim>\<open>encode\<close>,
  \<^verbatim>\<open>decode\<close>, \<^verbatim>\<open>is\<close>, \<^verbatim>\<open>equals\<close> and \<^verbatim>\<open>pattern\<close>, as functions of the
  captured \<^verbatim>\<open>type\<close> and \<^verbatim>\<open>injector\<close>. Each function also returns the calls it makes to
  the descriptor's functions, in order.
\<close>

datatype call = RepresentCall string jsval | ResolveCall string jsval injector

definition encode :: "urltype \<Rightarrow> jsval \<Rightarrow> (error + jsval) \<times> call list" where
  "encode t obj =
     (case get_prop obj REPR_TOKEN of
        Inl e \<Rightarrow> (Inl e, [])
      | Inr m \<Rightarrow>
          if truthy m then (Inr m, [])
          else (Inr (Str (represent t obj)), [RepresentCall (name t) obj]))"

text \<open>\<open>a\<close> is the reference of the object that \<^verbatim>\<open>const obj = {}\<close> allocates.\<close>

definition decode :: "urltype \<Rightarrow> injector \<Rightarrow> nat \<Rightarrow> jsval \<Rightarrow> jsval \<times> call list" where
  "decode t ctx a repr =
     (if truthy repr \<and> typeof repr = ''object''
      then (Obj a [(REPR_TOKEN, Str (represent t repr))] (Some (ReturnValue repr)),
            [RepresentCall (name t) repr])
      else (Obj a [(REPR_TOKEN, repr)] (Some (CallResolve (name t) repr ctx)), []))"

definition is_type :: "jsval \<Rightarrow> bool" where
  "is_type obj =
     (truthy obj \<and> typeof obj = ''object'' \<and>
      hasOwnProperty obj REPR_TOKEN \<and> hasOwnProperty obj RSLV_TOKEN)"

definition equals :: "urltype \<Rightarrow> jsval \<Rightarrow> jsval \<Rightarrow> bool \<times> call list" where
  "equals t a b =
     (if truthy a \<and> truthy b \<and>
         typeof a = ''object'' \<and> typeof b = ''object'' \<and>
         hasOwnProperty a REPR_TOKEN \<and> hasOwnProperty b REPR_TOKEN
      then (strict_eq (read_prop a REPR_TOKEN) (read_prop b REPR_TOKEN), [])
      else if truthy a \<and> truthy b \<and>
         typeof a = ''object'' \<and> typeof b = ''object''
      then (toUpperCase (represent t a) = toUpperCase (represent t b),
            [RepresentCall (name t) a, RepresentCall (name t) b])
      else (strict_eq a b, []))"

definition pattern :: "urltype \<Rightarrow> string" where
  "pattern t = match t"

text \<open>Calling a stored closure. \<^verbatim>\<open>() => type.resolve(repr, injector)\<close> calls the
  \<^verbatim>\<open>resolve\<close> of the type it captured, which is the registered type of that name.\<close>

definition invoke :: "service \<Rightarrow> jsval closure \<Rightarrow> (error + jsval) \<times> call list" where
  "invoke s c =
     (case c of
        ReturnValue v \<Rightarrow> (Inr v, [])
      | CallResolve n raw ctx \<Rightarrow>
          (case getTypeByName s n False of
             None \<Rightarrow> (Inl TypeError, [])
           | Some t \<Rightarrow> (resolve t raw ctx, [ResolveCall n raw ctx])))"

section \<open>Typed parameters of a state\<close>

text \<open>
  What the service reads of the router's \<^verbatim>\<open>StateObject\<close>: the path, each path state's
  own \<^verbatim>\<open>params\<close> (possibly missing) in the order of \<^verbatim>\<open>Object.keys\<close>, and of each
  \<^verbatim>\<open>Param\<close> its \<^verbatim>\<open>id\<close> and its \<^verbatim>\<open>type.name\<close>.
\<close>

record param =
  param_id :: string
  type_name :: string

record path_state =
  params :: "(string \<times> param) list option"

record state_object =
  path :: "path_state list"

text \<open>The inner loop of \<^verbatim>\<open>getTypeParamsFromStateObject\<close>, with \<^verbatim>\<open>foundParams\<close> as
  accumulator.\<close>

fun scan_params :: "service \<Rightarrow> bool \<Rightarrow> (string \<times> param) list \<Rightarrow> param list \<Rightarrow> param list" where
  "scan_params s bindableOnly [] foundParams = foundParams"
| "scan_params s bindableOnly ((paramName, p) # ps) foundParams =
     scan_params s bindableOnly ps
       (if getTypeByName s (type_name p) bindableOnly \<noteq> None
        then foundParams @ [p] else foundParams)"

text \<open>The outer loop, over \<^verbatim>\<open>state.path\<close>.\<close>

fun scan_path :: "service \<Rightarrow> bool \<Rightarrow> path_state list \<Rightarrow> param list \<Rightarrow> param list" where
  "scan_path s bindableOnly [] foundParams = foundParams"
| "scan_path s bindableOnly (pathState # rest) foundParams =
     scan_path s bindableOnly rest
       (scan_params s bindableOnly
          (case params pathState of None \<Rightarrow> [] | Some ps \<Rightarrow> ps) foundParams)"

definition getTypeParamsFromStateObject :: "service \<Rightarrow> state_object \<Rightarrow> bool \<Rightarrow> param list" where
  "getTypeParamsFromStateObject s state bindableOnly = scan_path s bindableOnly (path state) []"

definition getTypeIdsFromStateObject :: "service \<Rightarrow> state_object \<Rightarrow> bool \<Rightarrow> string list" where
  "getTypeIdsFromStateObject s state bindableOnly =
     map param_id (getTypeParamsFromStateObject s state bindableOnly)"

section \<open>Resolving the parameters of a transition\<close>

text \<open>
  What \<^verbatim>\<open>doTransition\<close> reads and writes of the router's \<^verbatim>\<open>Transition\<close>:
  \<^verbatim>\<open>params('to')\<close>, \<^verbatim>\<open>targetState().$state()\<close>, the nodes of \<^verbatim>\<open>treeChanges()['to']\<close>
  with their \<^verbatim>\<open>paramValues\<close> (possibly missing), and the tokens of the resolvables added
  by \<^verbatim>\<open>addResolvable\<close>.
\<close>

record tree_node =
  paramValues :: "(string \<rightharpoonup> jsval) option"

record transition =
  params_to :: "string \<rightharpoonup> jsval"
  target_state :: state_object
  tree_to :: "tree_node list"
  resolvables :: "string list"

text \<open>\<^verbatim>\<open>targetParamValue[RSLV_TOKEN]()\<close>: a \<^verbatim>\<open>TypeError\<close> where the value is
  \<^verbatim>\<open>undefined\<close> or \<^verbatim>\<open>null\<close> or holds no function under \<^verbatim>\<open>RSLV_TOKEN\<close>.\<close>

definition call_resolver :: "service \<Rightarrow> jsval \<Rightarrow> (error + jsval) \<times> call list" where
  "call_resolver s v =
     (case v of Obj a ps (Some c) \<Rightarrow> invoke s c | _ \<Rightarrow> (Inl TypeError, []))"

text \<open>\<^verbatim>\<open>Promise.resolve(v)\<close>: a native promise is returned as it is, any other value
  gives a promise that is already fulfilled with it.\<close>

definition promise_resolve :: "jsval \<Rightarrow> jsval settlement" where
  "promise_resolve v = (case v of Promise a st \<Rightarrow> st | _ \<Rightarrow> Fulfils 0 v)"

text \<open>
  Lines 90 to 103: \<^verbatim>\<open>targetParamPromise\<close> is \<^verbatim>\<open>targetParamResolved &&
  targetParamResolved['$promise']\<close>; it is kept when it is truthy and its \<^verbatim>\<open>then\<close> is a
  function, which among the values considered is the case of a promise, and replaced by
  \<^verbatim>\<open>Promise.resolve(targetParamResolved)\<close> otherwise. The result is what becomes of the
  promise that the reactions are attached to.
\<close>

definition normalize :: "jsval \<Rightarrow> jsval settlement" where
  "normalize targetParamResolved =
     (let targetParamPromise =
            (if truthy targetParamResolved then read_prop targetParamResolved ''$promise''
             else targetParamResolved)
      in case targetParamPromise of
           Promise a st \<Rightarrow> st
         | _ \<Rightarrow> promise_resolve targetParamResolved)"

text \<open>Lines 88 to 103 for one parameter id: the value of \<^verbatim>\<open>targetParams\<close>, the call of
  its closure (which may throw), the promise.\<close>

definition resolve_param :: "service \<Rightarrow> (string \<rightharpoonup> jsval) \<Rightarrow> string \<Rightarrow> error + jsval settlement" where
  "resolve_param s targetParams targetParamId =
     (let targetParamValue =
            (case targetParams targetParamId of None \<Rightarrow> Undefined | Some v \<Rightarrow> v)
      in case fst (call_resolver s targetParamValue) of
           Inl e \<Rightarrow> Inl e
         | Inr targetParamResolved \<Rightarrow> Inr (normalize targetParamResolved))"

text \<open>The loop over \<^verbatim>\<open>targetParamIds\<close>, run synchronously: it throws what a closure
  throws, and otherwise leaves one promise per id in \<^verbatim>\<open>targetPromises\<close> and one
  resolvable per bindable id.\<close>

fun start_resolutions ::
  "service \<Rightarrow> (string \<rightharpoonup> jsval) \<Rightarrow> string list \<Rightarrow> string list \<Rightarrow>
   (string \<times> jsval settlement) list \<Rightarrow> string list \<Rightarrow>
   error + (string \<times> jsval settlement) list \<times> string list" where
  "start_resolutions s targetParams bindableIds [] targetPromises rs = Inr (targetPromises, rs)"
| "start_resolutions s targetParams bindableIds (targetParamId # ids) targetPromises rs =
     (case resolve_param s targetParams targetParamId of
        Inl e \<Rightarrow> Inl e
      | Inr p \<Rightarrow>
          start_resolutions s targetParams bindableIds ids
            (targetPromises @ [(targetParamId, p)])
            (if targetParamId \<in> set bindableIds then rs @ [targetParamId] else rs))"

text \<open>The \<^verbatim>\<open>then\<close> callback: the resolved value is written to every node of the tree
  whose \<^verbatim>\<open>paramValues\<close> has the id as own property.\<close>

definition write_back :: "string \<Rightarrow> jsval \<Rightarrow> tree_node list \<Rightarrow> tree_node list" where
  "write_back targetParamId resolved treeParams =
     map (\<lambda>nodeParams.
            case paramValues nodeParams of
              None \<Rightarrow> nodeParams
            | Some nodeParamValues \<Rightarrow>
                if nodeParamValues targetParamId \<noteq> None
                then nodeParams\<lparr>paramValues := Some (nodeParamValues(targetParamId \<mapsto> resolved))\<rparr>
                else nodeParams)
       treeParams"

definition resolve_message :: "string \<Rightarrow> jsval \<Rightarrow> string" where
  "resolve_message targetParamId e =
     ''The URL parameter '' @ [CHR 0x27] @ targetParamId @ [CHR 0x27] @
     '' rejected. The error was:'' @ [CHR 0x0A] @ replicate 24 (CHR '' '') @
     to_string e @ ''.''"

text \<open>
  The event loop. Promises settle in the order of their turns; promises of the same
  turn react in the order in which the loop attached the reactions. Pending promises never
  react.
\<close>

fun settle_turn :: "'v settlement \<Rightarrow> nat" where
  "settle_turn (Fulfils n v) = n"
| "settle_turn (Rejects n e) = n"
| "settle_turn Pends = 0"

definition reaction_order ::
  "(string \<times> jsval settlement) list \<Rightarrow> (string \<times> jsval settlement) list" where
  "reaction_order targetPromises =
     sort_key (\<lambda>j. settle_turn (snd j)) (filter (\<lambda>j. snd j \<noteq> Pends) targetPromises)"

text \<open>The reactions, run in the given order: a fulfilled promise writes its value back,
  a rejected one writes nothing.\<close>

fun run_reactions :: "(string \<times> jsval settlement) list \<Rightarrow> tree_node list \<Rightarrow> tree_node list" where
  "run_reactions [] treeParams = treeParams"
| "run_reactions ((targetParamId, Fulfils n resolved) # js) treeParams =
     run_reactions js (write_back targetParamId resolved treeParams)"
| "run_reactions ((targetParamId, Rejects n e) # js) treeParams = run_reactions js treeParams"
| "run_reactions ((targetParamId, Pends) # js) treeParams = run_reactions js treeParams"

text \<open>\<^verbatim>\<open>Promise.all(targetPromises)\<close>: rejected with the error of the first promise
  to reject, where the \<^verbatim>\<open>catch\<close> callback has turned the cause into a
  \<^verbatim>\<open>UrlTypeFactoryResolveError\<close>; fulfilled with all values once all are fulfilled;
  pending otherwise.\<close>

datatype outcome = Fulfilled "jsval list" | Rejected error | Pending

fun first_rejection :: "(string \<times> jsval settlement) list \<Rightarrow> (string \<times> jsval) option" where
  "first_rejection [] = None"
| "first_rejection ((targetParamId, Rejects n e) # js) = Some (targetParamId, e)"
| "first_rejection ((targetParamId, Fulfils n v) # js) = first_rejection js"
| "first_rejection ((targetParamId, Pends) # js) = first_rejection js"

fun fulfilled_values :: "(string \<times> jsval settlement) list \<Rightarrow> jsval list option" where
  "fulfilled_values [] = Some []"
| "fulfilled_values ((targetParamId, Fulfils n v) # js) = map_option ((#) v) (fulfilled_values js)"
| "fulfilled_values ((targetParamId, Rejects n e) # js) = None"
| "fulfilled_values ((targetParamId, Pends) # js) = None"

definition promise_all :: "(string \<times> jsval settlement) list \<Rightarrow> outcome" where
  "promise_all targetPromises =
     (case first_rejection (reaction_order targetPromises) of
        Some (targetParamId, e) \<Rightarrow>
          Rejected (UrlTypeFactoryResolveError (resolve_message targetParamId e))
      | None \<Rightarrow>
          (case fulfilled_values targetPromises of
             Some vs \<Rightarrow> Fulfilled vs
           | None \<Rightarrow> Pending))"

text \<open>
  \<^verbatim>\<open>doTransition(transition)\<close>: the error thrown synchronously, or what becomes of the
  returned promise together with the transition once every reaction that will ever run
  has run.
\<close>

definition doTransition :: "service \<Rightarrow> transition \<Rightarrow> error + outcome \<times> transition" where
  "doTransition s transition =
     (let targetParams = params_to transition;
          targetParamIds = getTypeIdsFromStateObject s (target_state transition) False;
          targetParamBindableIds = getTypeIdsFromStateObject s (target_state transition) True
      in case start_resolutions s targetParams targetParamBindableIds targetParamIds []
                (resolvables transition) of
           Inl e \<Rightarrow> Inl e
         | Inr (targetPromises, rs) \<Rightarrow>
             Inr (promise_all targetPromises,
                  transition\<lparr>tree_to := run_reactions (reaction_order targetPromises)
                                          (tree_to transition),
                              resolvables := rs\<rparr>))"

section \<open>Descriptors and transitions of the test suite\<close>

text \<open>
  The descriptors of the repository's tests: \<^verbatim>\<open>represent\<close> is \<^verbatim>\<open>String(obj.pk)\<close>,
  the synchronous \<^verbatim>\<open>resolve\<close> returns an object literal and the asynchronous one a
  promise that fulfils at a later turn. Three further descriptors: \<open>UnboundTestType\<close>
  takes the name of the first and leaves \<^verbatim>\<open>bindable\<close> out, \<open>LateRejectTestType\<close>
  returns a promise that rejects, \<open>RejectTestType\<close> an object whose \<^verbatim>\<open>$promise\<close>
  rejects earlier. The reference of each returned object is fixed.
\<close>

definition represent_pk :: "jsval \<Rightarrow> string" where
  "represent_pk obj = to_string (read_prop obj ''pk'')"

definition sync_object :: jsval where
  "sync_object =
     Obj 1000
       [(''pk'', Num 1), (''attr1'', Str ''sync-value1''), (''attr2'', Str ''sync-value2'')] None"

definition async_object :: jsval where
  "async_object =
     Obj 2001
       [(''pk'', Num 1), (''attr1'', Str ''async-value1''), (''attr2'', Str ''async-value2'')] None"

definition SyncTestType :: urltype where
  "SyncTestType =
     \<lparr>name = ''SyncTest'', match = [CHR 0x5C] @ ''d+'', represent = represent_pk,
      resolve = (\<lambda>matched ctx. Inr sync_object), bindable = Some True\<rparr>"

definition AsyncTestType :: urltype where
  "AsyncTestType =
     \<lparr>name = ''AsyncTest'', match = [CHR 0x5C] @ ''d+'', represent = represent_pk,
      resolve = (\<lambda>matched ctx. Inr (Promise 2000 (Fulfils 1 async_object))),
      bindable = Some True\<rparr>"

definition UnboundTestType :: urltype where
  "UnboundTestType =
     \<lparr>name = ''SyncTest'', match = ''.*'', represent = represent_pk,
      resolve = (\<lambda>matched ctx. Inr matched), bindable = None\<rparr>"

definition LateRejectTestType :: urltype where
  "LateRejectTestType =
     \<lparr>name = ''LateRejectTest'', match = [CHR 0x5C] @ ''d+'', represent = represent_pk,
      resolve = (\<lambda>matched ctx. Inr (Promise 3000 (Rejects 2 (Str ''late'')))),
      bindable = None\<rparr>"

definition RejectTestType :: urltype where
  "RejectTestType =
     \<lparr>name = ''RejectTest'', match = [CHR 0x5C] @ ''d+'', represent = represent_pk,
      resolve = (\<lambda>matched ctx. Inr (Obj 4000 [(''$promise'', Promise 4001 (Rejects 1 (Str ''gone'')))] None)),
      bindable = Some False\<rparr>"

text \<open>A service with the four types registered, a state with a synchronous and an
  asynchronous parameter (and the router's own \<^verbatim>\<open>#\<close> parameter), a state with two
  rejecting parameters, and a transition to each. The values of the parameters are what
  \<^verbatim>\<open>decode\<close> returns for the numbers given to \<^verbatim>\<open>go\<close>.\<close>

definition test_service :: service where
  "test_service =
     \<lparr>registeredTypes = [SyncTestType, AsyncTestType, LateRejectTestType, RejectTestType],
      bindableTypes = [SyncTestType, AsyncTestType]\<rparr>"

definition sync_async_state :: state_object where
  "sync_async_state =
     \<lparr>path = [\<lparr>params = None\<rparr>,
              \<lparr>params = Some [(''param1'', \<lparr>param_id = ''param1'', type_name = ''SyncTest''\<rparr>),
                              (''param2'', \<lparr>param_id = ''param2'', type_name = ''AsyncTest''\<rparr>),
                              (''#'', \<lparr>param_id = ''#'', type_name = ''hash''\<rparr>)]\<rparr>]\<rparr>"

definition sync_async_values :: "string \<rightharpoonup> jsval" where
  "sync_async_values =
     [''param1'' \<mapsto> fst (decode SyncTestType 0 10 (Num 1)),
      ''param2'' \<mapsto> fst (decode AsyncTestType 0 11 (Num 1)),
      ''#'' \<mapsto> Null]"

definition sync_async_transition :: transition where
  "sync_async_transition =
     \<lparr>params_to = sync_async_values, target_state = sync_async_state,
      tree_to = [\<lparr>paramValues = Some Map.empty\<rparr>, \<lparr>paramValues = Some sync_async_values\<rparr>],
      resolvables = []\<rparr>"





definition sync_async_settlements :: "string \<Rightarrow> jsval settlement" where
  "sync_async_settlements k =
     (if k = ''param1'' then Fulfils 0 sync_object else Fulfils 1 async_object)"

section \<open>Notions of the specification\<close>

text \<open>
  The words of the specification, defined on the values themselves: a non-null object,
  the representation marker an object carries, equality of strings up to the case of
  letters, the parameters a state declares along its path, a type name being in
  the requested subset of the registry, and the awaitable contract that a value exposes
  (what becomes of it when it is awaited; none for a value without callable \<^verbatim>\<open>then\<close>).
\<close>

definition is_object :: "jsval \<Rightarrow> bool" where
  "is_object v = (case v of Obj a ps r \<Rightarrow> True | Promise a p \<Rightarrow> True | _ \<Rightarrow> False)"

definition marker_of :: "jsval \<Rightarrow> jsval option" where
  "marker_of v = (case v of Obj a ps r \<Rightarrow> map_of ps REPR_TOKEN | _ \<Rightarrow> None)"



definition declared_params :: "state_object \<Rightarrow> param list" where
  "declared_params state =
     concat (map (\<lambda>pathState. case params pathState of None \<Rightarrow> [] | Some ps \<Rightarrow> map snd ps)
       (path state))"

definition registered_name :: "service \<Rightarrow> bool \<Rightarrow> string \<Rightarrow> bool" where
  "registered_name s bindableOnly n =
     (n \<in> name ` set (if bindableOnly then bindableTypes s else registeredTypes s))"


section \<open>Properties\<close>

subsection \<open>Auxiliary facts\<close>

lemma strict_eq_sym: "strict_eq a b = strict_eq b a"
  by (cases a; cases b) auto

lemma is_object_iff: "is_object v \<longleftrightarrow> truthy v \<and> typeof v = ''object''"
  by (cases v) (auto simp: is_object_def)







lemma first_named_None_iff: "first_named n ts = None \<longleftrightarrow> n \<notin> name ` set ts"
  by (induction ts) auto


lemma scan_params_filter:
  "scan_params s b ps found =
     found @ filter (\<lambda>p. registered_name s b (type_name p)) (map snd ps)"
  by (induction ps arbitrary: found)
     (auto simp: registered_name_def getTypeByName_def first_named_None_iff)

lemma scan_path_filter:
  "scan_path s b ns found =
     found @ filter (\<lambda>p. registered_name s b (type_name p))
       (concat (map (\<lambda>pathState. case params pathState of None \<Rightarrow> [] | Some ps \<Rightarrow> map snd ps) ns))"
  by (induction ns arbitrary: found) (auto simp: scan_params_filter split: option.splits)

subsection \<open>Typed parameters of a state\<close>

text \<open>
  Claim C9. For every state and every flag \<open>bindableOnly\<close>,
  \<^verbatim>\<open>getTypeParamsFromStateObject\<close> returns exactly the parameters declared on the path
  states whose type name is registered in the requested subset (all registered types, or
  the bindable ones), in path order and without removing duplicates. The function only
  reads the service and the state: it has no other result than the list.
\<close>

theorem getTypeParams_exact:
  "getTypeParamsFromStateObject s state bindableOnly =
     filter (\<lambda>p. registered_name s bindableOnly (type_name p)) (declared_params state)"
  by (simp add: getTypeParamsFromStateObject_def scan_path_filter declared_params_def)

subsection \<open>Equality of the codec\<close>


text \<open>
  Claim C10. The codec's \<^verbatim>\<open>equals\<close> is symmetric: \<^verbatim>\<open>equals(a, b)\<close> and
  \<^verbatim>\<open>equals(b, a)\<close> return the same truth value, for all values.
\<close>

theorem equals_symmetric: "fst (equals t a b) = fst (equals t b a)"
  by (auto simp: equals_def strict_eq_sym)

subsection \<open>The descriptors of the tests\<close>

lemma name_SyncTestType [simp]: "name SyncTestType = ''SyncTest''"
  and bindable_SyncTestType [simp]: "bindable SyncTestType = Some True"
  and represent_SyncTestType [simp]: "represent SyncTestType = represent_pk"
  and resolve_SyncTestType [simp]: "resolve SyncTestType matched ctx = Inr sync_object"
  by (simp_all add: SyncTestType_def)

lemma name_AsyncTestType [simp]: "name AsyncTestType = ''AsyncTest''"
  and bindable_AsyncTestType [simp]: "bindable AsyncTestType = Some True"
  and represent_AsyncTestType [simp]: "represent AsyncTestType = represent_pk"
  and resolve_AsyncTestType [simp]: "resolve AsyncTestType matched ctx = Inr (Promise 2000 (Fulfils 1 async_object))"
  by (simp_all add: AsyncTestType_def)

lemma name_UnboundTestType [simp]: "name UnboundTestType = ''SyncTest''"
  and bindable_UnboundTestType [simp]: "bindable UnboundTestType = None"
  by (simp_all add: UnboundTestType_def)

lemma name_LateRejectTestType [simp]: "name LateRejectTestType = ''LateRejectTest''"
  and resolve_LateRejectTestType [simp]:
    "resolve LateRejectTestType matched ctx = Inr (Promise 3000 (Rejects 2 (Str ''late'')))"
  by (simp_all add: LateRejectTestType_def)

lemma name_RejectTestType [simp]: "name RejectTestType = ''RejectTest''"
  and resolve_RejectTestType [simp]:
    "resolve RejectTestType matched ctx =
       Inr (Obj 4000 [(''$promise'', Promise 4001 (Rejects 1 (Str ''gone'')))] None)"
  by (simp_all add: RejectTestType_def)

subsection \<open>Registration\<close>











subsection \<open>Decoding and encoding\<close>

text \<open>
  Claim C2. For every registered type and every value \<open>raw\<close>: if \<open>raw\<close> is a non-null
  object, \<^verbatim>\<open>decode(raw)\<close> returns an object whose representation marker is
  \<^verbatim>\<open>represent(raw)\<close> and whose closure returns \<open>raw\<close> itself without any call of
  \<^verbatim>\<open>resolve\<close>; otherwise the marker is \<open>raw\<close> itself and the closure, when called,
  makes the one call \<^verbatim>\<open>resolve(raw, injector)\<close> and returns its result.
\<close>

theorem decode_cases:
  assumes "getTypeByName s (name t) False = Some t"
  shows
    "(is_object raw \<longrightarrow>
        marker_of (fst (decode t ctx a raw)) = Some (Str (represent t raw)) \<and>
        call_resolver s (fst (decode t ctx a raw)) = (Inr raw, [])) \<and>
     (\<not> is_object raw \<longrightarrow>
        marker_of (fst (decode t ctx a raw)) = Some raw \<and>
        call_resolver s (fst (decode t ctx a raw)) =
          (resolve t raw ctx, [ResolveCall (name t) raw ctx]))"
  using assms
  by (auto simp: decode_def is_object_iff marker_of_def call_resolver_def invoke_def)

lemma SyncTestType_registered:
  "getTypeByName \<lparr>registeredTypes = [SyncTestType], bindableTypes = [SyncTestType]\<rparr>
     (name SyncTestType) False = Some SyncTestType"
  by (simp add: getTypeByName_def)

lemma represent_pk_example: "represent_pk (Obj 3 [(''pk'', Num 12)] None) = ''12''"
  by code_simp

theorem decode_cases_witness:
  "marker_of (fst (decode SyncTestType 0 5 (Obj 3 [(''pk'', Num 12)] None))) = Some (Str ''12'') \<and>
   call_resolver \<lparr>registeredTypes = [SyncTestType], bindableTypes = [SyncTestType]\<rparr>
       (fst (decode SyncTestType 0 5 (Obj 3 [(''pk'', Num 12)] None))) =
     (Inr (Obj 3 [(''pk'', Num 12)] None), []) \<and>
   marker_of (fst (decode SyncTestType 0 5 (Str ''7''))) = Some (Str ''7'') \<and>
   call_resolver \<lparr>registeredTypes = [SyncTestType], bindableTypes = [SyncTestType]\<rparr>
       (fst (decode SyncTestType 0 5 (Str ''7''))) =
     (Inr sync_object,
      [ResolveCall ''SyncTest'' (Str ''7'') 0])"
  using decode_cases [OF SyncTestType_registered, of "Obj 3 [(''pk'', Num 12)] None" 0 5]
    decode_cases [OF SyncTestType_registered, of "Str ''7''" 0 5]
  by (simp add: is_object_def represent_pk_example)

text \<open>What \<^verbatim>\<open>encode\<close> does on an object whose marker is truthy, and on an object
  without marker.\<close>

lemma encode_truthy_marker:
  "marker_of obj = Some m \<Longrightarrow> truthy m \<Longrightarrow> encode t obj = (Inr m, [])"
  by (cases obj) (auto simp: encode_def get_prop_def marker_of_def)

lemma encode_no_marker:
  "is_object obj \<Longrightarrow> marker_of obj = None \<Longrightarrow>
   encode t obj = (Inr (Str (represent t obj)), [RepresentCall (name t) obj])"
  by (cases obj) (auto simp: encode_def get_prop_def marker_of_def is_object_def)

text \<open>
  Claim C3 says: if the object carries the representation marker, \<^verbatim>\<open>encode\<close> returns
  the marker verbatim, without calling \<^verbatim>\<open>represent\<close>. The test of \<^verbatim>\<open>encode\<close> is
  \<^verbatim>\<open>!!obj[REPR_TOKEN]\<close>, the truth of the marker and not its presence: the object that
  \<^verbatim>\<open>decode(0)\<close> returns carries the marker \<open>0\<close>, and \<^verbatim>\<open>encode\<close> calls
  \<^verbatim>\<open>represent\<close> on that wrapper object and returns \<^verbatim>\<open>"undefined"\<close>.
\<close>

theorem encode_falsy_marker:
  "marker_of (fst (decode SyncTestType 0 5 (Num 0))) = Some (Num 0) \<and>
   encode SyncTestType (fst (decode SyncTestType 0 5 (Num 0))) =
     (Inr (Str ''undefined''), [RepresentCall ''SyncTest'' (fst (decode SyncTestType 0 5 (Num 0)))])"
  by (simp add: decode_def encode_def get_prop_def marker_of_def represent_pk_def REPR_TOKEN_def)

text \<open>
  Claim C8 says: for every matched string \<open>s\<close>, \<^verbatim>\<open>encode(decode(s))\<close> is \<open>s\<close>. For the
  empty string the marker is falsy, and \<^verbatim>\<open>encode\<close> returns \<^verbatim>\<open>represent\<close> of the
  wrapper object instead.
\<close>

theorem encode_decode_empty:
  "fst (encode SyncTestType (fst (decode SyncTestType 0 5 (Str '''')))) = Inr (Str ''undefined'')"
  by (simp add: decode_def encode_def get_prop_def represent_pk_def REPR_TOKEN_def)

text \<open>For every truthy value that is not an object, the round trip holds.\<close>

lemma encode_decode_truthy:
  "\<not> is_object raw \<Longrightarrow> truthy raw \<Longrightarrow> fst (encode t (fst (decode t ctx a raw))) = Inr raw"
  by (simp add: decode_def encode_def get_prop_def is_object_iff)

subsection \<open>The transition resolver\<close>

text \<open>The synchronous loop returns exactly when the closure of every typed parameter
  returns; it then leaves one promise per id, in order.\<close>

lemma start_resolutions_returns:
  assumes "\<forall>k\<in>set ids. resolve_param s tp k = Inr (st k)"
  shows "start_resolutions s tp b ids jobs rs =
           Inr (jobs @ map (\<lambda>k. (k, st k)) ids, rs @ filter (\<lambda>k. k \<in> set b) ids)"
  using assms by (induction ids arbitrary: jobs rs) auto

lemma start_resolutions_Inr:
  assumes "start_resolutions s tp b ids jobs rs = Inr x" and "k \<in> set ids"
  shows "\<exists>p. resolve_param s tp k = Inr p"
  using assms
  by (induction ids arbitrary: jobs rs) (auto split: sum.splits)

lemma write_back_length [simp]: "length (write_back k v tree) = length tree"
  by (simp add: write_back_def)

lemma write_back_nth:
  assumes "n < length tree" and "paramValues (tree ! n) = Some m"
  shows "paramValues (write_back k v tree ! n) = Some (if m k \<noteq> None then m(k \<mapsto> v) else m)"
  using assms by (simp add: write_back_def)

lemma run_reactions_length [simp]: "length (run_reactions js tree) = length tree"
  by (induction js tree rule: run_reactions.induct) simp_all

lemma run_reactions_dom:
  assumes "n < length tree" and "paramValues (tree ! n) = Some m"
  shows "\<exists>m'. paramValues (run_reactions js tree ! n) = Some m' \<and> dom m' = dom m"
  using assms
proof (induction js tree arbitrary: m rule: run_reactions.induct)
  case (2 k t v js tree)
  have "paramValues (write_back k v tree ! n) = Some (if m k \<noteq> None then m(k \<mapsto> v) else m)"
    using 2 by (simp add: write_back_nth)
  from "2.IH" [OF _ this] 2 show ?case by (auto split: if_splits)
qed simp_all

lemma run_reactions_holds:
  assumes "\<forall>j\<in>set js. fst j = k \<longrightarrow> (\<exists>t. snd j = Fulfils t v)"
    and "n < length tree" and "paramValues (tree ! n) = Some m" and "m k \<noteq> None"
    and "k \<in> fst ` set js \<or> m k = Some v"
  shows "\<exists>m'. paramValues (run_reactions js tree ! n) = Some m' \<and> m' k = Some v"
  using assms
proof (induction js tree arbitrary: m rule: run_reactions.induct)
  case (1 tree)
  then show ?case by simp
next
  case (2 i t w js tree)
  let ?m = "if m i \<noteq> None then m(i \<mapsto> w) else m"
  have nth: "paramValues (write_back i w tree ! n) = Some ?m"
    using 2 by (simp add: write_back_nth)
  have iw: "i = k \<Longrightarrow> w = v" using "2.prems"(1) by simp
  have "\<exists>m'. paramValues (run_reactions js (write_back i w tree) ! n) = Some m' \<and> m' k = Some v"
  proof (rule "2.IH" [OF _ _ nth])
    show "\<forall>j\<in>set js. fst j = k \<longrightarrow> (\<exists>t. snd j = Fulfils t v)" using "2.prems"(1) by simp
    show "n < length (write_back i w tree)" using "2.prems"(2) by simp
    show "?m k \<noteq> None" using "2.prems"(4) by simp
    show "k \<in> fst ` set js \<or> ?m k = Some v"
      using "2.prems"(4,5) iw by (cases "i = k") auto
  qed
  then show ?case by simp
next
  case (3 i t e js tree)
  from "3.prems"(1) have ik: "i \<noteq> k" by auto
  have "\<exists>m'. paramValues (run_reactions js tree ! n) = Some m' \<and> m' k = Some v"
    using "3.prems" ik by (intro "3.IH") auto
  then show ?case by simp
next
  case (4 i js tree)
  from "4.prems"(1) have ik: "i \<noteq> k" by auto
  have "\<exists>m'. paramValues (run_reactions js tree ! n) = Some m' \<and> m' k = Some v"
    using "4.prems" ik by (intro "4.IH") auto
  then show ?case by simp
qed

lemma set_reaction_order: "set (reaction_order jobs) = {j \<in> set jobs. snd j \<noteq> Pends}"
  by (simp add: reaction_order_def)


lemma first_rejection_None_iff:
  "first_rejection js = None \<longleftrightarrow> (\<forall>j\<in>set js. \<forall>t e. snd j \<noteq> Rejects t e)"
  by (induction js rule: first_rejection.induct) auto


lemma fulfilled_values_Some_iff:
  "fulfilled_values js = Some vs \<longleftrightarrow> list_all2 (\<lambda>j v. \<exists>t. snd j = Fulfils t v) js vs"
proof (induction js arbitrary: vs rule: fulfilled_values.induct)
  case 1
  show ?case by auto
next
  case (2 k n v js)
  then show ?case by (cases vs) auto
next
  case (3 k n e js)
  show ?case by (cases vs) auto
next
  case (4 k js)
  show ?case by (cases vs) auto
qed

lemma fulfilled_values_None_iff:
  "fulfilled_values js = None \<longleftrightarrow> (\<exists>j\<in>set js. \<forall>t v. snd j \<noteq> Fulfils t v)"
  by (induction js rule: fulfilled_values.induct) auto

lemma doTransition_returns:
  assumes "\<forall>k\<in>set (getTypeIdsFromStateObject s (target_state tr) False).
             resolve_param s (params_to tr) k = Inr (st k)"
  shows "doTransition s tr =
     Inr (promise_all (map (\<lambda>k. (k, st k)) (getTypeIdsFromStateObject s (target_state tr) False)),
          tr\<lparr>tree_to :=
               run_reactions
                 (reaction_order
                   (map (\<lambda>k. (k, st k)) (getTypeIdsFromStateObject s (target_state tr) False)))
                 (tree_to tr),
             resolvables :=
               resolvables tr @
               filter (\<lambda>k. k \<in> set (getTypeIdsFromStateObject s (target_state tr) True))
                 (getTypeIdsFromStateObject s (target_state tr) False)\<rparr>)"
  by (simp add: doTransition_def Let_def start_resolutions_returns [OF assms])

lemma doTransition_Inr:
  assumes "doTransition s tr = Inr x"
  shows "\<exists>st. \<forall>k\<in>set (getTypeIdsFromStateObject s (target_state tr) False).
           resolve_param s (params_to tr) k = Inr (st k)"
proof -
  from assms obtain y where
    "start_resolutions s (params_to tr) (getTypeIdsFromStateObject s (target_state tr) True)
       (getTypeIdsFromStateObject s (target_state tr) False) [] (resolvables tr) = Inr y"
    by (auto simp: doTransition_def Let_def split: sum.splits)
  then have "\<forall>k\<in>set (getTypeIdsFromStateObject s (target_state tr) False).
      \<exists>p. resolve_param s (params_to tr) k = Inr p"
    using start_resolutions_Inr by blast
  then show ?thesis by metis
qed

lemma reactions_keep_fulfilled:
  assumes "k \<in> set ids" and "st k = Fulfils t v"
    and "n < length tree" and "paramValues (tree ! n) = Some m" and "m k \<noteq> None"
  shows "\<exists>m'. paramValues (run_reactions (reaction_order (map (\<lambda>k. (k, st k)) ids)) tree ! n) = Some m'
              \<and> m' k = Some v"
proof (rule run_reactions_holds [OF _ assms(3,4,5)])
  show "\<forall>j\<in>set (reaction_order (map (\<lambda>k. (k, st k)) ids)).
          fst j = k \<longrightarrow> (\<exists>t. snd j = Fulfils t v)"
    using assms(2) by (auto simp: set_reaction_order)
  have "(k, st k) \<in> set (reaction_order (map (\<lambda>k. (k, st k)) ids))"
    using assms(1,2) by (auto simp: set_reaction_order)
  then show "k \<in> fst ` set (reaction_order (map (\<lambda>k. (k, st k)) ids)) \<or> m k = Some v"
    by force
qed

lemma promise_all_Fulfilled_iff:
  "promise_all (map (\<lambda>k. (k, st k)) ids) = Fulfilled vs \<longleftrightarrow>
     list_all2 (\<lambda>k v. \<exists>t. st k = Fulfils t v) ids vs"
proof
  assume "promise_all (map (\<lambda>k. (k, st k)) ids) = Fulfilled vs"
  then have "fulfilled_values (map (\<lambda>k. (k, st k)) ids) = Some vs"
    by (auto simp: promise_all_def split: option.splits)
  then show "list_all2 (\<lambda>k v. \<exists>t. st k = Fulfils t v) ids vs"
    by (simp add: fulfilled_values_Some_iff list_all2_map1)
next
  assume a: "list_all2 (\<lambda>k v. \<exists>t. st k = Fulfils t v) ids vs"
  then have fv: "fulfilled_values (map (\<lambda>k. (k, st k)) ids) = Some vs"
    by (simp add: fulfilled_values_Some_iff list_all2_map1)
  then have "\<forall>j\<in>set (map (\<lambda>k. (k, st k)) ids). \<exists>t v. snd j = Fulfils t v"
    using fulfilled_values_None_iff [of "map (\<lambda>k. (k, st k)) ids"] by fastforce
  then have "first_rejection (reaction_order (map (\<lambda>k. (k, st k)) ids)) = None"
    by (fastforce simp: first_rejection_None_iff set_reaction_order)
  with fv show "promise_all (map (\<lambda>k. (k, st k)) ids) = Fulfilled vs"
    by (simp add: promise_all_def)
qed


text \<open>The closure of a decoded value returns: it gives back an object that was passed
  in, without any call, and the result of \<^verbatim>\<open>resolve\<close> for any other input, when
  \<^verbatim>\<open>resolve\<close> returns.\<close>

lemma resolve_param_decoded_object:
  assumes "targetParams k = Some (fst (decode t ctx a raw))" and "is_object raw"
  shows "resolve_param s targetParams k = Inr (normalize raw)"
  using assms
  by (auto simp: resolve_param_def call_resolver_def decode_def invoke_def is_object_iff)

lemma resolve_param_decoded_raw:
  assumes "targetParams k = Some (fst (decode t ctx a raw))" and "\<not> is_object raw"
    and "getTypeByName s (name t) False = Some t" and "resolve t raw ctx = Inr r"
  shows "resolve_param s targetParams k = Inr (normalize r)"
  using assms
  by (auto simp: resolve_param_def call_resolver_def decode_def invoke_def is_object_iff)






lemma sync_async_ids:
  "getTypeIdsFromStateObject test_service (target_state sync_async_transition) False =
     [''param1'', ''param2'']"
  by (simp add: getTypeIdsFromStateObject_def getTypeParamsFromStateObject_def
      sync_async_transition_def sync_async_state_def test_service_def getTypeByName_def)

lemma sync_async_resolutions:
  "\<forall>k\<in>set [''param1'', ''param2''].
     resolve_param test_service (params_to sync_async_transition) k = Inr (sync_async_settlements k)"
  by (simp add: resolve_param_def call_resolver_def decode_def invoke_def getTypeByName_def
      test_service_def normalize_def promise_resolve_def sync_async_transition_def
      sync_async_values_def sync_async_settlements_def sync_object_def async_object_def)

lemma sync_async_aggregate:
  "promise_all (map (\<lambda>k. (k, sync_async_settlements k)) [''param1'', ''param2'']) =
     Fulfilled [sync_object, async_object]"
  by (simp add: promise_all_def reaction_order_def sync_async_settlements_def)



text \<open>
  Claim C5. Whenever \<^verbatim>\<open>doTransition\<close> fulfils, then for every typed parameter id of the
  target state the parameter's promise has fulfilled with some value, and every node of
  the target tree whose own \<^verbatim>\<open>paramValues\<close> contains the id holds that value for the id
  afterwards: the resolved object, not the value that \<^verbatim>\<open>decode\<close> had put there.
\<close>

theorem doTransition_write_back:
  assumes "doTransition s tr = Inr (Fulfilled vs, tr')"
    and "k \<in> set (getTypeIdsFromStateObject s (target_state tr) False)"
    and "n < length (tree_to tr)" and "paramValues (tree_to tr ! n) = Some m"
    and "m k \<noteq> None"
  shows "\<exists>t v m'. resolve_param s (params_to tr) k = Inr (Fulfils t v) \<and>
           paramValues (tree_to tr' ! n) = Some m' \<and> m' k = Some v"
proof -
  let ?ids = "getTypeIdsFromStateObject s (target_state tr) False"
  from doTransition_Inr [OF assms(1)] obtain st where
    st: "\<forall>k\<in>set ?ids. resolve_param s (params_to tr) k = Inr (st k)" by blast
  let ?jobs = "map (\<lambda>k. (k, st k)) ?ids"
  from doTransition_returns [OF st] assms(1)
  have pa: "promise_all ?jobs = Fulfilled vs"
    and tr': "tree_to tr' = run_reactions (reaction_order ?jobs) (tree_to tr)"
    by auto
  from pa have "list_all2 (\<lambda>k v. \<exists>t. st k = Fulfils t v) ?ids vs"
    by (simp add: promise_all_Fulfilled_iff)
  with assms(2) obtain t v where tv: "st k = Fulfils t v"
    by (auto simp: list_all2_conv_all_nth in_set_conv_nth)
  from reactions_keep_fulfilled [of k ?ids st t v n "tree_to tr" m] assms(2-5) tv tr'
  obtain m' where "paramValues (tree_to tr' ! n) = Some m'" "m' k = Some v"
    by auto
  moreover have "resolve_param s (params_to tr) k = Inr (Fulfils t v)"
    using st assms(2) tv by simp
  ultimately show ?thesis by blast
qed

theorem doTransition_write_back_witness:
  "\<exists>tr'. doTransition test_service sync_async_transition =
       Inr (Fulfilled [sync_object, async_object], tr') \<and>
     (\<exists>m'. paramValues (tree_to tr' ! 1) = Some m' \<and> m' ''param2'' = Some async_object)"
proof -
  from doTransition_returns
    [of test_service sync_async_transition sync_async_settlements, unfolded sync_async_ids,
     OF sync_async_resolutions]
  obtain tr' where
    "doTransition test_service sync_async_transition =
      Inr (promise_all (map (\<lambda>k. (k, sync_async_settlements k)) [''param1'', ''param2'']), tr')"
    by (rule that)
  then have ret: "doTransition test_service sync_async_transition =
      Inr (Fulfilled [sync_object, async_object], tr')"
    by (simp only: sync_async_aggregate)
  have "''param2'' \<in> set (getTypeIdsFromStateObject test_service
      (target_state sync_async_transition) False)"
    by (simp add: sync_async_ids)
  moreover have "1 < length (tree_to sync_async_transition)"
    and "paramValues (tree_to sync_async_transition ! 1) = Some sync_async_values"
    and "sync_async_values ''param2'' \<noteq> None"
    by (simp_all add: sync_async_transition_def sync_async_values_def)
  ultimately have "\<exists>t v m'.
      resolve_param test_service (params_to sync_async_transition) ''param2'' = Inr (Fulfils t v) \<and>
      paramValues (tree_to tr' ! 1) = Some m' \<and> m' ''param2'' = Some v"
    by (rule doTransition_write_back [OF ret])
  then
  obtain t v m' where "resolve_param test_service (params_to sync_async_transition) ''param2'' =
      Inr (Fulfils t v)"
    and "paramValues (tree_to tr' ! 1) = Some m'" and "m' ''param2'' = Some v"
    by blast
  moreover have "resolve_param test_service (params_to sync_async_transition) ''param2'' =
      Inr (Fulfils 1 async_object)"
    using sync_async_resolutions by (simp add: sync_async_settlements_def)
  ultimately have "\<exists>m'. paramValues (tree_to tr' ! 1) = Some m' \<and> m' ''param2'' = Some async_object"
    by auto
  with ret show ?thesis by blast
qed

end
